theory Spec2Isabelle
  imports Complex_Main "HOL-Library.Char_ord" "HOL-Library.List_Lexorder"
    "HOL-Library.Product_Lexorder" "HOL-Library.Multiset"
begin

section \<open>The data the functions of \<^verbatim>\<open>transaction_utils.py\<close> work on\<close>

text \<open>
  Every function loads the first sheet of the workbook into a pandas DataFrame and works on
  four of its columns. A sheet is its list of column labels and its rows; a row holds one
  cell for each of the four columns (the cell of a column the sheet does not have is never
  read: the source checks or fails on the column name first).

  \<^verbatim>\<open>read_excel\<close> keeps a header cell or a PO code that is a number as a number, not as
  text (a date is not text either, and is outside this model).
\<close>

datatype cell = Text string | Number rat

text \<open>
  The cell of \<^verbatim>\<open>jumlah\<close> is held as the value \<^verbatim>\<open>pd.to_numeric(..., errors='coerce')\<close>
  gives for it: \<open>None\<close> where the cell is empty or does not parse (NaN), the number
  otherwise. Amounts are exact rationals, which covers both the integer and the fractional
  cells a sheet can hold. The sum of several amounts is the exact sum: the code adds them
  as int64 or float64, so its sum wraps or rounds where the exact one does not fit. The
  other cells are \<open>None\<close> where empty; vendor and status cells are text.
\<close>

record row =
  vendor_name :: "string option"
  jumlah :: "rat option"
  po_status_approval :: "string option"
  po_code :: "cell option"

record dataframe =
  columns :: "cell list"
  rows :: "row list"

text \<open>A workbook is the list of its sheets, in order.\<close>

type_synonym excel_file = "dataframe list"

datatype error = ValueError string | KeyError string | IndexError | TypeError

definition total_column :: string where "total_column = ''jumlah''"
definition vendor_column :: string where "vendor_column = ''vendor_name''"
definition status_column :: string where "status_column = ''po_status_approval''"
definition po_code_column :: string where "po_code_column = ''po_code''"

section \<open>Error messages\<close>

text \<open>
  \<^verbatim>\<open>', '.join(df.columns)\<close> joins text: on a label that is not text it raises TypeError.
  \<open>text_labels\<close> gives the labels as text when all of them are.
\<close>

fun text_labels :: "cell list \<Rightarrow> string list option" where
  "text_labels [] = Some []"
| "text_labels (Text s # ls) = map_option ((#) s) (text_labels ls)"
| "text_labels (Number q # ls) = None"

fun join :: "string \<Rightarrow> string list \<Rightarrow> string" where
  "join sep [] = []"
| "join sep [x] = x"
| "join sep (x # y # ys) = x @ sep @ join sep (y # ys)"

text \<open>\<^verbatim>\<open>f"Kolom '{c}' tidak ditemukan."\<close>, the message of the PO functions.\<close>

definition kolom_tidak_ditemukan :: "string \<Rightarrow> string" where
  "kolom_tidak_ditemukan c = ''Kolom '' @ [CHR 0x27] @ c @ [CHR 0x27] @ '' tidak ditemukan.''"

text \<open>\<^verbatim>\<open>f"Kolom '{c}' tidak ditemukan. Kolom yang tersedia: {', '.join(df.columns)}"\<close>,
  the message of \<^verbatim>\<open>count_transactions\<close>.\<close>

definition kolom_tidak_ditemukan_tersedia :: "string \<Rightarrow> string list \<Rightarrow> string" where
  "kolom_tidak_ditemukan_tersedia c cols =
     kolom_tidak_ditemukan c @ '' Kolom yang tersedia: '' @ join '', '' cols"

text \<open>What lines 42 and 44 raise: the message is built, labels joined, before the
  ValueError is.\<close>

definition column_not_found :: "string \<Rightarrow> cell list \<Rightarrow> error" where
  "column_not_found c cols =
     (case text_labels cols of
        None \<Rightarrow> TypeError
      | Some names \<Rightarrow> ValueError (kolom_tidak_ditemukan_tersedia c names))"

definition tidak_ada_transaksi :: "string \<Rightarrow> string" where
  "tidak_ada_transaksi v = ''Tidak ada transaksi yang ditemukan untuk vendor: '' @ v"

section \<open>The row filter steps\<close>

text \<open>\<^verbatim>\<open>df.dropna(subset=[total_column])\<close>\<close>

definition dropna_jumlah :: "row list \<Rightarrow> row list" where
  "dropna_jumlah rs = filter (\<lambda>r. jumlah r \<noteq> None) rs"

text \<open>\<^verbatim>\<open>df.dropna(subset=[total_column, po_code_column])\<close>\<close>

definition dropna_jumlah_po_code :: "row list \<Rightarrow> row list" where
  "dropna_jumlah_po_code rs = filter (\<lambda>r. jumlah r \<noteq> None \<and> po_code r \<noteq> None) rs"

text \<open>\<^verbatim>\<open>if status_column in df.columns: df = df[df[status_column] == 'Approved']\<close>\<close>

definition only_approved :: "cell list \<Rightarrow> row list \<Rightarrow> row list" where
  "only_approved cols rs =
     (if Text status_column \<in> set cols
      then filter (\<lambda>r. po_status_approval r = Some ''Approved'') rs
      else rs)"

text \<open>The truth value Python gives \<^verbatim>\<open>vendor\<close> in \<^verbatim>\<open>if vendor:\<close>: false for
  \<^verbatim>\<open>None\<close> and for the empty string.\<close>

definition vendor_given :: "string option \<Rightarrow> bool" where
  "vendor_given vendor = (case vendor of None \<Rightarrow> False | Some v \<Rightarrow> v \<noteq> [])"

text \<open>\<^verbatim>\<open>df[df[vendor_column] == vendor]\<close>\<close>

definition vendor_rows :: "string option \<Rightarrow> row list \<Rightarrow> row list" where
  "vendor_rows vendor rs = filter (\<lambda>r. vendor_name r = vendor) rs"

text \<open>The \<^verbatim>\<open>jumlah\<close> column of rows that went through \<^verbatim>\<open>dropna\<close>.\<close>

definition amounts :: "row list \<Rightarrow> rat list" where
  "amounts rs = map (\<lambda>r. the (jumlah r)) rs"

section \<open>The range counters\<close>

definition ranges :: "(rat \<times> rat) list" where
  "ranges =
     [(0, 100000),
      (100001, 500000),
      (500001, 1000000),
      (1000001, 5000000),
      (5000001, 10000000),
      (10000001, 50000000)]"

text \<open>
  The loop over \<^verbatim>\<open>ranges\<close> that counts the values with
  \<^verbatim>\<open>(v >= min_val) & (v <= max_val)\<close>, followed by the count of the values
  \<^verbatim>\<open>> 50000000\<close>. Both counters run it: on the amounts of the rows, and on the sums
  of the PO groups.
\<close>

definition range_counts :: "rat list \<Rightarrow> nat list" where
  "range_counts vs =
     map (\<lambda>(min_val, max_val). length (filter (\<lambda>v. v \<ge> min_val \<and> v \<le> max_val) vs)) ranges
     @ [length (filter (\<lambda>v. v > 50000000) vs)]"

text \<open>Lines 60 to 86 of \<^verbatim>\<open>count_transactions\<close>: the tuple
  \<^verbatim>\<open>(total_transactions, total_amount, *counts)\<close> of the filtered rows.\<close>

definition transaction_counts :: "row list \<Rightarrow> nat \<times> rat \<times> nat list" where
  "transaction_counts rs = (length rs, sum_list (amounts rs), range_counts (amounts rs))"

definition count_transactions ::
  "excel_file \<Rightarrow> string option \<Rightarrow> error + (nat \<times> rat \<times> nat list)" where
  "count_transactions file vendor =
     (case file of
        [] \<Rightarrow> Inl (ValueError ''Tidak ada sheet yang ditemukan dalam file Excel.'')
      | df # _ \<Rightarrow>
          if Text total_column \<notin> set (columns df)
          then Inl (column_not_found total_column (columns df))
          else if Text vendor_column \<notin> set (columns df)
          then Inl (column_not_found vendor_column (columns df))
          else
            let rs = only_approved (columns df) (dropna_jumlah (rows df)) in
            if vendor_given vendor
            then
              let rs = vendor_rows vendor rs in
              if rs = [] then Inl (ValueError (tidak_ada_transaksi (the vendor)))
              else Inr (transaction_counts rs)
            else Inr (transaction_counts rs))"

section \<open>The range labels\<close>

definition ranges_labels :: "string list" where
  "ranges_labels =
     [''0 - 100 Ribu'',
      ''100 Ribu - 500 Ribu'',
      ''500 Ribu - 1 Juta'',
      ''1 Juta - 5 Juta'',
      ''5 Juta - 10 Juta'',
      ''10 Juta - 50 Juta'',
      ''Di atas 50 Juta'']"

text \<open>The local function \<^verbatim>\<open>get_range\<close> of \<^verbatim>\<open>get_po_breakdown\<close>.\<close>

definition get_range :: "rat \<Rightarrow> string" where
  "get_range v =
     (if v \<le> 100000 then ''0 - 100 Ribu''
      else if v \<le> 500000 then ''100 Ribu - 500 Ribu''
      else if v \<le> 1000000 then ''500 Ribu - 1 Juta''
      else if v \<le> 5000000 then ''1 Juta - 5 Juta''
      else if v \<le> 10000000 then ''5 Juta - 10 Juta''
      else if v \<le> 50000000 then ''10 Juta - 50 Juta''
      else ''Di atas 50 Juta'')"

section \<open>The PO counter and the PO breakdown\<close>

text \<open>
  Lines 102 to 126 of \<^verbatim>\<open>count_unique_po_by_range\<close>, repeated as lines 168 to 192 of
  \<^verbatim>\<open>get_po_breakdown\<close>: load the first sheet (\<^verbatim>\<open>xls.sheet_names[0]\<close>), check the two
  columns, drop the rows without amount or PO code, keep the approved rows, and keep the
  vendor's rows when a vendor is given. Neither function checks \<^verbatim>\<open>vendor_name\<close>, so
  \<^verbatim>\<open>df[vendor_column]\<close> is a KeyError on a sheet without it; neither looks at
  \<^verbatim>\<open>df.empty\<close>.
\<close>

definition po_rows :: "excel_file \<Rightarrow> string option \<Rightarrow> error + row list" where
  "po_rows file vendor =
     (case file of
        [] \<Rightarrow> Inl IndexError
      | df # _ \<Rightarrow>
          if Text total_column \<notin> set (columns df)
          then Inl (ValueError (kolom_tidak_ditemukan total_column))
          else if Text po_code_column \<notin> set (columns df)
          then Inl (ValueError (kolom_tidak_ditemukan po_code_column))
          else
            let rs = only_approved (columns df) (dropna_jumlah_po_code (rows df)) in
            if vendor_given vendor
            then
              if Text vendor_column \<notin> set (columns df) then Inl (KeyError vendor_column)
              else Inr (vendor_rows vendor rs)
            else Inr rs)"

text \<open>
  The order in which pandas sorts group keys: numbers by value, text by code points, and
  in a column that mixes them the numbers before the text.
\<close>

definition key_order :: "cell \<Rightarrow> nat \<times> rat \<times> string" where
  "key_order k = (case k of Number q \<Rightarrow> (0, q, []) | Text s \<Rightarrow> (1, 0, s))"

text \<open>
  \<^verbatim>\<open>df.groupby(po_code_column)\<close>: one group for each PO code of the rows, the groups in
  ascending order of the code (pandas sorts the group keys, \<^verbatim>\<open>sort=True\<close> being the
  default), each with its rows in their order in the sheet.
\<close>

definition groupby_po_code :: "row list \<Rightarrow> (cell \<times> row list) list" where
  "groupby_po_code rs =
     map (\<lambda>k. (k, filter (\<lambda>r. po_code r = Some k) rs))
       (sort_key key_order (remdups (map (\<lambda>r. the (po_code r)) rs)))"

definition count_unique_po_by_range ::
  "excel_file \<Rightarrow> string option \<Rightarrow> error + (nat \<times> nat list)" where
  "count_unique_po_by_range file vendor =
     (case po_rows file vendor of
        Inl e \<Rightarrow> Inl e
      | Inr rs \<Rightarrow>
          let df_po = map (\<lambda>(k, g). (k, sum_list (amounts g))) (groupby_po_code rs) in
          Inr (length df_po, range_counts (map snd df_po)))"

record po_summary_row =
  PO_Code :: cell
  Jumlah_Transaksi :: nat
  Total_Nilai :: rat
  Rentang :: string

text \<open>
  Lines 168 to 218 of \<^verbatim>\<open>get_po_breakdown\<close>: the table \<^verbatim>\<open>po_summary\<close> before it is
  sorted, one row for each group with its number of rows, its sum and the label
  \<^verbatim>\<open>get_range\<close> gives the sum.
\<close>

definition po_summary :: "excel_file \<Rightarrow> string option \<Rightarrow> error + po_summary_row list" where
  "po_summary file vendor =
     (case po_rows file vendor of
        Inl e \<Rightarrow> Inl e
      | Inr rs \<Rightarrow>
          Inr (map (\<lambda>(k, g).
                     \<lparr>PO_Code = k,
                      Jumlah_Transaksi = length g,
                      Total_Nilai = sum_list (amounts g),
                      Rentang = get_range (sum_list (amounts g))\<rparr>)
                 (groupby_po_code rs)))"

text \<open>
  \<^verbatim>\<open>sort_values(col, ascending=False)\<close> at line 221. The source passes no \<^verbatim>\<open>kind\<close>, so
  pandas sorts with numpy's quicksort, which is not stable: the rows come back in
  descending order of the column, and nothing fixes the order of rows with equal values.
  So the sort is a relation between the table and each table it may return: the same rows,
  in descending order.
\<close>

definition sort_values_desc :: "('a \<Rightarrow> rat) \<Rightarrow> 'a list \<Rightarrow> 'a list \<Rightarrow> bool" where
  "sort_values_desc col xs ys = (mset ys = mset xs \<and> sorted_wrt (\<lambda>a b. col b \<le> col a) ys)"

text \<open>
  \<^verbatim>\<open>get_po_breakdown file vendor res\<close>: the call may return \<open>res\<close>. An error is the
  only outcome when \<^verbatim>\<open>po_summary\<close> fails; otherwise the outcomes are the sorted tables.
\<close>

definition get_po_breakdown ::
  "excel_file \<Rightarrow> string option \<Rightarrow> error + po_summary_row list \<Rightarrow> bool" where
  "get_po_breakdown file vendor res =
     (case po_summary file vendor of
        Inl e \<Rightarrow> res = Inl e
      | Inr table \<Rightarrow>
          (case res of
             Inl e \<Rightarrow> False
           | Inr sorted_table \<Rightarrow> sort_values_desc Total_Nilai table sorted_table))"

section \<open>The statistics tables\<close>

text \<open>
  The values of the \<^verbatim>\<open>Persentase\<close> column: pandas divides an integer column by an integer
  as floats, without raising: \<open>0 / 0\<close> is NaN and \<open>c / 0\<close> is infinite for \<open>c > 0\<close>.
  A finite value is the exact rational. The code computes in doubles, so a percentage whose
  exact value lies on a half of the second decimal can come out 0.01 apart from the exact
  rounding (23 of 160 is 14.375 exactly and rounds to 14.38; the doubles give 14.37).
\<close>

datatype pyfloat = Finite rat | PosInf | NaN

definition truediv :: "nat \<Rightarrow> nat \<Rightarrow> pyfloat" where
  "truediv c n =
     (if n = 0 then (if c = 0 then NaN else PosInf)
      else Finite (of_nat c / of_nat n))"

definition mul :: "pyfloat \<Rightarrow> rat \<Rightarrow> pyfloat" where
  "mul x k = (case x of Finite q \<Rightarrow> Finite (q * k) | PosInf \<Rightarrow> PosInf | NaN \<Rightarrow> NaN)"

text \<open>Rounding to the nearest integer, halves to the even one, as numpy rounds.\<close>

definition rint :: "rat \<Rightarrow> int" where
  "rint q =
     (let f = \<lfloor>q\<rfloor>; d = q - of_int f in
      if d < 1 / 2 then f
      else if d > 1 / 2 then f + 1
      else if even f then f else f + 1)"

text \<open>\<^verbatim>\<open>.round(2)\<close>\<close>

definition round2 :: "pyfloat \<Rightarrow> pyfloat" where
  "round2 x =
     (case x of Finite q \<Rightarrow> Finite (of_int (rint (q * 100)) / 100) | PosInf \<Rightarrow> PosInf | NaN \<Rightarrow> NaN)"

text \<open>A statistics table: one row \<^verbatim>\<open>(Rentang, Jumlah, Persentase)\<close> for each label.\<close>

type_synonym stats_df = "(string \<times> nat \<times> pyfloat) list"

definition get_range_statistics :: "excel_file \<Rightarrow> string option \<Rightarrow> error + stats_df" where
  "get_range_statistics file vendor =
     (case count_transactions file vendor of
        Inl e \<Rightarrow> Inl e
      | Inr (total_count, total_amount, counts) \<Rightarrow>
          Inr (map (\<lambda>(label, c). (label, c, round2 (mul (truediv c total_count) 100)))
                 (zip ranges_labels counts)))"

definition get_unique_po_statistics :: "excel_file \<Rightarrow> string option \<Rightarrow> error + stats_df" where
  "get_unique_po_statistics file vendor =
     (case count_unique_po_by_range file vendor of
        Inl e \<Rightarrow> Inl e
      | Inr (total_count, counts) \<Rightarrow>
          Inr (map (\<lambda>(label, c).
                     (label, c,
                      if total_count > 0 then round2 (mul (truediv c total_count) 100) else Finite 0))
                 (zip ranges_labels counts)))"

section \<open>The raw filtered rows\<close>

text \<open>
  \<^verbatim>\<open>get_transaction_dataframe\<close> goes straight to \<^verbatim>\<open>df[total_column]\<close> and
  \<^verbatim>\<open>df[vendor_column]\<close>: on a sheet without the column that is pandas' KeyError.
\<close>

definition get_transaction_dataframe ::
  "excel_file \<Rightarrow> string option \<Rightarrow> error + dataframe" where
  "get_transaction_dataframe file vendor =
     (case file of
        [] \<Rightarrow> Inl IndexError
      | df # _ \<Rightarrow>
          if Text total_column \<notin> set (columns df) then Inl (KeyError total_column)
          else
            let rs = only_approved (columns df) (dropna_jumlah (rows df)) in
            if vendor_given vendor
            then
              if Text vendor_column \<notin> set (columns df) then Inl (KeyError vendor_column)
              else Inr (df\<lparr>rows := vendor_rows vendor rs\<rparr>)
            else Inr (df\<lparr>rows := rs\<rparr>))"

section \<open>Sheets used as examples\<close>

definition all_columns :: "cell list" where
  "all_columns =
     [Text ''vendor_name'', Text ''jumlah'', Text ''po_status_approval'', Text ''po_code'']"

definition approved :: "string \<Rightarrow> rat \<Rightarrow> string \<Rightarrow> row" where
  "approved v a p =
     \<lparr>vendor_name = Some v, jumlah = Some a, po_status_approval = Some ''Approved'',
      po_code = Some (Text p)\<rparr>"

text \<open>One approved row with a negative amount.\<close>

definition sheet_negative :: dataframe where
  "sheet_negative = \<lparr>columns = all_columns, rows = [approved ''X'' (- 5) ''PO1'']\<rparr>"

text \<open>One approved row with an amount between 100000 and 100001.\<close>

definition sheet_fraction :: dataframe where
  "sheet_fraction = \<lparr>columns = all_columns, rows = [approved ''X'' (200001 / 2) ''PO1'']\<rparr>"

text \<open>Scenario A of the specification.\<close>

definition sheet_A :: dataframe where
  "sheet_A =
     \<lparr>columns = all_columns,
      rows =
        [approved ''X'' 50000 ''PO1'',
         approved ''X'' 600000 ''PO2'',
         \<lparr>vendor_name = Some ''X'', jumlah = Some 70000,
          po_status_approval = Some ''Not Yet Approved'', po_code = Some (Text ''PO3'')\<rparr>]\<rparr>"

text \<open>Rows of two vendors.\<close>

definition sheet_vendors :: dataframe where
  "sheet_vendors =
     \<lparr>columns = all_columns,
      rows =
        [approved ''X'' 50000 ''PO1'',
         approved ''Y'' 600000 ''PO2'',
         approved ''X'' 200000 ''PO1'']\<rparr>"


text \<open>A sheet whose only row is not approved.\<close>

definition sheet_pending :: dataframe where
  "sheet_pending =
     \<lparr>columns = all_columns,
      rows =
        [\<lparr>vendor_name = Some ''X'', jumlah = Some 70000,
          po_status_approval = Some ''Not Yet Approved'', po_code = Some (Text ''PO3'')\<rparr>]\<rparr>"

text \<open>Sheets that lack columns.\<close>

definition sheet_vendor_only :: dataframe where
  "sheet_vendor_only = \<lparr>columns = [Text ''vendor_name''], rows = []\<rparr>"

definition sheet_jumlah_only :: dataframe where
  "sheet_jumlah_only = \<lparr>columns = [Text ''jumlah''], rows = []\<rparr>"

definition sheet_no_po_code :: dataframe where
  "sheet_no_po_code = \<lparr>columns = [Text ''vendor_name'', Text ''jumlah''], rows = []\<rparr>"

text \<open>A sheet whose second header cell is the number 2024.\<close>

definition sheet_numeric_header :: dataframe where
  "sheet_numeric_header = \<lparr>columns = [Text ''vendor_name'', Number 2024], rows = []\<rparr>"

section \<open>The bins of a single amount\<close>

lemma range_counts_single:
  "range_counts [v] =
     [if 0 \<le> v \<and> v \<le> 100000 then 1 else 0,
      if 100001 \<le> v \<and> v \<le> 500000 then 1 else 0,
      if 500001 \<le> v \<and> v \<le> 1000000 then 1 else 0,
      if 1000001 \<le> v \<and> v \<le> 5000000 then 1 else 0,
      if 5000001 \<le> v \<and> v \<le> 10000000 then 1 else 0,
      if 10000001 \<le> v \<and> v \<le> 50000000 then 1 else 0,
      if 50000000 < v then 1 else 0]"
  by (simp add: range_counts_def ranges_def)

lemma range_counts_Nil: "range_counts [] = [0, 0, 0, 0, 0, 0, 0]"
  by (simp add: range_counts_def ranges_def)

lemma sum_range_counts_Cons:
  "sum_list (range_counts (v # vs)) = sum_list (range_counts [v]) + sum_list (range_counts vs)"
  by (simp add: range_counts_def ranges_def)

lemma sum_range_counts_single_le: "sum_list (range_counts [v]) \<le> 1"
  by (simp add: range_counts_single)

lemma sum_range_counts_le: "sum_list (range_counts vs) \<le> length vs"
proof (induction vs)
  case Nil
  show ?case by (simp add: range_counts_Nil)
next
  case (Cons v vs)
  have "sum_list (range_counts (v # vs)) \<le> 1 + sum_list (range_counts vs)"
    using sum_range_counts_single_le [of v] by (subst sum_range_counts_Cons) simp
  with Cons.IH show ?case by simp
qed

lemma whole_amount_one_bin:
  assumes "v \<in> \<int>" and "0 \<le> v"
  shows "sum_list (range_counts [v]) = 1"
proof -
  from assms(1) obtain i :: int where v: "v = of_int i" by (auto elim: Ints_cases)
  with assms(2) have "0 \<le> i" by simp
  then show ?thesis unfolding v range_counts_single by simp
qed

lemma whole_amounts_partition:
  assumes "\<And>v. v \<in> set vs \<Longrightarrow> v \<in> \<int> \<and> 0 \<le> v"
  shows "sum_list (range_counts vs) = length vs"
  using assms
proof (induction vs)
  case Nil
  show ?case by (simp add: range_counts_Nil)
next
  case (Cons v vs)
  have "sum_list (range_counts [v]) = 1"
    using Cons.prems [of v] by (simp add: whole_amount_one_bin)
  moreover have "sum_list (range_counts vs) = length vs"
    using Cons by simp
  ultimately show ?case by (subst sum_range_counts_Cons) simp
qed

lemma whole_amount_same_bin:
  assumes "v \<in> \<int>" and "0 \<le> v"
  shows "\<exists>i < 7. range_counts [v] = (replicate 7 0)[i := 1] \<and> get_range v = ranges_labels ! i"
proof -
  from assms(1) obtain k :: int where v: "v = of_int k" by (auto elim: Ints_cases)
  with assms(2) have k: "0 \<le> k" by simp
  consider "k \<le> 100000" | "100001 \<le> k" "k \<le> 500000" | "500001 \<le> k" "k \<le> 1000000"
    | "1000001 \<le> k" "k \<le> 5000000" | "5000001 \<le> k" "k \<le> 10000000"
    | "10000001 \<le> k" "k \<le> 50000000" | "50000001 \<le> k"
    by linarith
  then show ?thesis
  proof cases
    case 1
    with k have "range_counts [v] = (replicate 7 0)[0 := 1] \<and> get_range v = ranges_labels ! 0"
      by (simp add: v range_counts_single get_range_def ranges_labels_def numeral_eq_Suc)
    then show ?thesis by (intro exI [of _ 0]) simp
  next
    case 2
    then have "range_counts [v] = (replicate 7 0)[1 := 1] \<and> get_range v = ranges_labels ! 1"
      by (simp add: v range_counts_single get_range_def ranges_labels_def numeral_eq_Suc)
    then show ?thesis by (intro exI [of _ 1]) simp
  next
    case 3
    then have "range_counts [v] = (replicate 7 0)[2 := 1] \<and> get_range v = ranges_labels ! 2"
      by (simp add: v range_counts_single get_range_def ranges_labels_def numeral_eq_Suc)
    then show ?thesis by (intro exI [of _ 2]) simp
  next
    case 4
    then have "range_counts [v] = (replicate 7 0)[3 := 1] \<and> get_range v = ranges_labels ! 3"
      by (simp add: v range_counts_single get_range_def ranges_labels_def numeral_eq_Suc)
    then show ?thesis by (intro exI [of _ 3]) simp
  next
    case 5
    then have "range_counts [v] = (replicate 7 0)[4 := 1] \<and> get_range v = ranges_labels ! 4"
      by (simp add: v range_counts_single get_range_def ranges_labels_def numeral_eq_Suc)
    then show ?thesis by (intro exI [of _ 4]) simp
  next
    case 6
    then have "range_counts [v] = (replicate 7 0)[5 := 1] \<and> get_range v = ranges_labels ! 5"
      by (simp add: v range_counts_single get_range_def ranges_labels_def numeral_eq_Suc)
    then show ?thesis by (intro exI [of _ 5]) simp
  next
    case 7
    then have "range_counts [v] = (replicate 7 0)[6 := 1] \<and> get_range v = ranges_labels ! 6"
      by (simp add: v range_counts_single get_range_def ranges_labels_def numeral_eq_Suc)
    then show ?thesis by (intro exI [of _ 6]) simp
  qed
qed

section \<open>Outcomes of the breakdown\<close>

lemma sort_values_desc_Nil: "sort_values_desc col [] ys = (ys = [])"
  by (auto simp: sort_values_desc_def)

lemma sort_values_desc_single: "sort_values_desc col [x] ys = (ys = [x])"
  by (auto simp: sort_values_desc_def)

lemma get_po_breakdown_error:
  "po_summary file vendor = Inl e \<Longrightarrow> get_po_breakdown file vendor = (\<lambda>res. res = Inl e)"
  by (simp add: get_po_breakdown_def fun_eq_iff)

lemma get_po_breakdown_empty:
  "po_summary file vendor = Inr [] \<Longrightarrow> get_po_breakdown file vendor = (\<lambda>res. res = Inr [])"
  by (auto simp: get_po_breakdown_def fun_eq_iff sort_values_desc_Nil split: sum.splits)

lemma get_po_breakdown_single:
  "po_summary file vendor = Inr [x] \<Longrightarrow> get_po_breakdown file vendor = (\<lambda>res. res = Inr [x])"
  by (auto simp: get_po_breakdown_def fun_eq_iff sort_values_desc_single split: sum.splits)

text \<open>The sort returns: every call of \<^verbatim>\<open>get_po_breakdown\<close> has an outcome.\<close>

lemma sort_values_desc_exists: "sort_values_desc col xs (rev (sort_key col xs))"
proof -
  have "sorted_wrt (\<lambda>a b. col a \<le> col b) (sort_key col xs)"
    using sorted_sort_key [of col xs] by (simp add: sorted_map)
  then show ?thesis
    by (simp add: sort_values_desc_def sorted_wrt_rev)
qed

lemma get_po_breakdown_returns: "\<exists>res. get_po_breakdown file vendor res"
proof (cases "po_summary file vendor")
  case (Inl e)
  then show ?thesis by (simp add: get_po_breakdown_def)
next
  case (Inr t)
  then have "get_po_breakdown file vendor (Inr (rev (sort_key Total_Nilai t)))"
    by (simp add: get_po_breakdown_def sort_values_desc_exists)
  then show ?thesis ..
qed

section \<open>Boundary amounts\<close>

text \<open>
  C3. The counting predicates and \<^verbatim>\<open>get_range\<close> both put an amount of 100000 in bin 0,
  100001 in bin 1, 50000000 in bin 5 and 50000001 in bin 6: the counts of a single amount
  are 1 at that bin and 0 elsewhere, and the label is the one of that bin.
\<close>

theorem boundary_amounts:
  "range_counts [100000] = [1, 0, 0, 0, 0, 0, 0] \<and> get_range 100000 = ranges_labels ! 0 \<and>
   range_counts [100001] = [0, 1, 0, 0, 0, 0, 0] \<and> get_range 100001 = ranges_labels ! 1 \<and>
   range_counts [50000000] = [0, 0, 0, 0, 0, 1, 0] \<and> get_range 50000000 = ranges_labels ! 5 \<and>
   range_counts [50000001] = [0, 0, 0, 0, 0, 0, 1] \<and> get_range 50000001 = ranges_labels ! 6"
  by (simp add: range_counts_single get_range_def ranges_labels_def)

section \<open>Amounts outside the six intervals\<close>

text \<open>
  C1. The seven bin counts are meant to add up to the total. They do when every amount is
  a whole number from 0 on (\<open>whole_amounts_partition\<close>), and they never exceed the total
  (\<open>sum_range_counts_le\<close>). But a row with a negative amount, or with an amount strictly
  between the end of one interval and the start of the next, is counted in the total and
  in no bin: on a sheet with the single approved amount \<open>-5\<close>, or \<open>100000.5\<close>, the
  total is 1 and every bin count is 0, for the transactions and for the unique POs.
\<close>

theorem bin_counts_below_total:
  "count_transactions [sheet_negative] None = Inr (1, - 5, [0, 0, 0, 0, 0, 0, 0]) \<and>
   count_transactions [sheet_fraction] None = Inr (1, 200001 / 2, [0, 0, 0, 0, 0, 0, 0]) \<and>
   count_unique_po_by_range [sheet_negative] None = Inr (1, [0, 0, 0, 0, 0, 0, 0]) \<and>
   count_unique_po_by_range [sheet_fraction] None = Inr (1, [0, 0, 0, 0, 0, 0, 0])"
  by code_simp

text \<open>
  C2. The counters and \<^verbatim>\<open>get_range\<close> are meant to classify alike. They do on whole
  amounts from 0 on (\<open>whole_amount_same_bin\<close>). On the PO whose value is \<open>-5\<close> the
  counter finds no bin while the breakdown labels it with bin 0; on the PO whose value is
  \<open>100000.5\<close> the counter finds no bin while the breakdown labels it with bin 1.
\<close>

theorem counters_and_get_range_differ:
  "count_unique_po_by_range [sheet_negative] None = Inr (1, [0, 0, 0, 0, 0, 0, 0]) \<and>
   get_po_breakdown [sheet_negative] None =
     (\<lambda>res. res =
        Inr [\<lparr>PO_Code = Text ''PO1'', Jumlah_Transaksi = 1, Total_Nilai = - 5,
              Rentang = ''0 - 100 Ribu''\<rparr>]) \<and>
   count_unique_po_by_range [sheet_fraction] None = Inr (1, [0, 0, 0, 0, 0, 0, 0]) \<and>
   get_po_breakdown [sheet_fraction] None =
     (\<lambda>res. res =
        Inr [\<lparr>PO_Code = Text ''PO1'', Jumlah_Transaksi = 1, Total_Nilai = 200001 / 2,
              Rentang = ''100 Ribu - 500 Ribu''\<rparr>])"
proof -
  have "po_summary [sheet_negative] None =
     Inr [\<lparr>PO_Code = Text ''PO1'', Jumlah_Transaksi = 1, Total_Nilai = - 5,
           Rentang = ''0 - 100 Ribu''\<rparr>]"
    and "po_summary [sheet_fraction] None =
     Inr [\<lparr>PO_Code = Text ''PO1'', Jumlah_Transaksi = 1, Total_Nilai = 200001 / 2,
           Rentang = ''100 Ribu - 500 Ribu''\<rparr>]"
    and "count_unique_po_by_range [sheet_negative] None = Inr (1, [0, 0, 0, 0, 0, 0, 0])"
    and "count_unique_po_by_range [sheet_fraction] None = Inr (1, [0, 0, 0, 0, 0, 0, 0])"
    by code_simp+
  then show ?thesis
    by (simp add: get_po_breakdown_single)
qed

text \<open>
  C8, as stated: a negative amount ends in the bin above 50 million, for the counters and
  for \<^verbatim>\<open>get_range\<close>. At \<open>-1\<close> neither is so.
\<close>

theorem negative_amount_not_above_50M:
  "range_counts [- 1] \<noteq> [0, 0, 0, 0, 0, 0, 1] \<and> get_range (- 1) \<noteq> ''Di atas 50 Juta''"
  by (simp add: range_counts_single get_range_def)

text \<open>
  C8, amended. A negative amount satisfies none of the seven counting predicates, so it is
  in no bin of the counters, and \<^verbatim>\<open>get_range\<close> gives it the label of bin 0.
\<close>

theorem negative_amounts:
  "v < 0 \<Longrightarrow> range_counts [v] = [0, 0, 0, 0, 0, 0, 0] \<and> get_range v = ''0 - 100 Ribu''"
  by (simp add: range_counts_single get_range_def)

theorem negative_amounts_witness:
  "(- 1 :: rat) < 0 \<and> range_counts [- 1] = [0, 0, 0, 0, 0, 0, 0] \<and>
   get_range (- 1) = ''0 - 100 Ribu''"
  using negative_amounts [of "- 1"] by simp

section \<open>Percentages of an empty selection\<close>

lemma percent_positive:
  "0 < n \<Longrightarrow>
     round2 (mul (truediv c n) 100) =
       Finite (of_int (rint (of_nat c / of_nat n * 100 * 100)) / 100)"
  by (simp add: truediv_def mul_def round2_def)

text \<open>
  C4. For a positive total both tables hold the count over the total, times 100, rounded to
  two decimals (\<open>percent_positive\<close>, in exact arithmetic). With no vendor given, a sheet without approved
  rows is not an error: the total is 0. There \<^verbatim>\<open>get_unique_po_statistics\<close> guards the
  division (\<^verbatim>\<open>if total > 0 else 0\<close>) and reports 0 percent in every bin, while
  \<^verbatim>\<open>get_range_statistics\<close> divides without the guard and reports NaN in every bin.
\<close>

theorem range_statistics_percent_nan:
  "count_transactions [sheet_pending] None = Inr (0, 0, [0, 0, 0, 0, 0, 0, 0]) \<and>
   get_range_statistics [sheet_pending] None = Inr (map (\<lambda>l. (l, 0, NaN)) ranges_labels) \<and>
   get_unique_po_statistics [sheet_pending] None =
     Inr (map (\<lambda>l. (l, 0, Finite 0)) ranges_labels)"
  by code_simp

section \<open>A vendor without rows\<close>

lemma groupby_po_code_Nil: "groupby_po_code [] = []"
  by (simp add: groupby_po_code_def)

lemma count_transactions_sheet:
  assumes "Text total_column \<in> set (columns df)" and "Text vendor_column \<in> set (columns df)"
  shows "count_transactions (df # sheets) vendor =
     (let rs = only_approved (columns df) (dropna_jumlah (rows df)) in
      if vendor_given vendor
      then if vendor_rows vendor rs = []
        then Inl (ValueError (tidak_ada_transaksi (the vendor)))
        else Inr (transaction_counts (vendor_rows vendor rs))
      else Inr (transaction_counts rs))"
  using assms by (simp add: count_transactions_def Let_def)

lemma po_rows_sheet:
  assumes "Text total_column \<in> set (columns df)" and "Text po_code_column \<in> set (columns df)"
  shows "po_rows (df # sheets) vendor =
     (let rs = only_approved (columns df) (dropna_jumlah_po_code (rows df)) in
      if vendor_given vendor
      then if Text vendor_column \<notin> set (columns df) then Inl (KeyError vendor_column)
        else Inr (vendor_rows vendor rs)
      else Inr rs)"
  using assms by (simp add: po_rows_def Let_def)

text \<open>
  C5, as stated: every aggregation fails when the vendor filter leaves no row. In
  Scenario A's sheet no row is of the vendor \<^verbatim>\<open>Nonexistent\<close>, and the PO counter returns
  zero counts and the breakdown an empty table.
\<close>

theorem vendor_without_rows_counterexample:
  "vendor_given (Some ''Nonexistent'') \<and>
   vendor_rows (Some ''Nonexistent'')
     (only_approved (columns sheet_A) (dropna_jumlah_po_code (rows sheet_A))) = [] \<and>
   count_unique_po_by_range [sheet_A] (Some ''Nonexistent'') = Inr (0, [0, 0, 0, 0, 0, 0, 0]) \<and>
   get_po_breakdown [sheet_A] (Some ''Nonexistent'') = (\<lambda>res. res = Inr [])"
proof -
  have "vendor_given (Some ''Nonexistent'')"
    and "vendor_rows (Some ''Nonexistent'')
       (only_approved (columns sheet_A) (dropna_jumlah_po_code (rows sheet_A))) = []"
    and "count_unique_po_by_range [sheet_A] (Some ''Nonexistent'') =
       Inr (0, [0, 0, 0, 0, 0, 0, 0])"
    and "po_summary [sheet_A] (Some ''Nonexistent'') = Inr []"
    by code_simp+
  then show ?thesis
    by (simp add: get_po_breakdown_empty)
qed

text \<open>
  C5, amended. With a vendor given (not \<^verbatim>\<open>None\<close>, not the empty string) on a sheet that has
  the columns: when no row is left after the filters, \<^verbatim>\<open>count_transactions\<close> fails with
  the ValueError that names the vendor, while \<^verbatim>\<open>count_unique_po_by_range\<close> returns a
  total of 0 with seven zero counts and the empty table is the one outcome of
  \<^verbatim>\<open>get_po_breakdown\<close>.
\<close>

theorem vendor_without_rows:
  assumes "vendor_given vendor"
    and "Text total_column \<in> set (columns df)" and "Text vendor_column \<in> set (columns df)"
  shows "(vendor_rows vendor (only_approved (columns df) (dropna_jumlah (rows df))) = [] \<longrightarrow>
           count_transactions (df # sheets) vendor =
             Inl (ValueError (tidak_ada_transaksi (the vendor)))) \<and>
         (Text po_code_column \<in> set (columns df) \<and>
          vendor_rows vendor (only_approved (columns df) (dropna_jumlah_po_code (rows df))) = [] \<longrightarrow>
           count_unique_po_by_range (df # sheets) vendor = Inr (0, [0, 0, 0, 0, 0, 0, 0]) \<and>
           get_po_breakdown (df # sheets) vendor = (\<lambda>res. res = Inr []))"
proof (intro conjI impI)
  assume "vendor_rows vendor (only_approved (columns df) (dropna_jumlah (rows df))) = []"
  with assms show "count_transactions (df # sheets) vendor =
      Inl (ValueError (tidak_ada_transaksi (the vendor)))"
    by (simp add: count_transactions_sheet)
next
  assume h: "Text po_code_column \<in> set (columns df) \<and>
    vendor_rows vendor (only_approved (columns df) (dropna_jumlah_po_code (rows df))) = []"
  with assms have rows: "po_rows (df # sheets) vendor = Inr []"
    by (simp add: po_rows_sheet)
  then show "count_unique_po_by_range (df # sheets) vendor = Inr (0, [0, 0, 0, 0, 0, 0, 0])"
    by (simp add: count_unique_po_by_range_def groupby_po_code_Nil range_counts_Nil)
  from rows have "po_summary (df # sheets) vendor = Inr []"
    by (simp add: po_summary_def groupby_po_code_Nil)
  then show "get_po_breakdown (df # sheets) vendor = (\<lambda>res. res = Inr [])"
    by (rule get_po_breakdown_empty)
qed

theorem vendor_without_rows_witness:
  "vendor_given (Some ''Nonexistent'') \<and>
   Text total_column \<in> set (columns sheet_A) \<and> Text vendor_column \<in> set (columns sheet_A) \<and>
   Text po_code_column \<in> set (columns sheet_A) \<and>
   vendor_rows (Some ''Nonexistent'')
     (only_approved (columns sheet_A) (dropna_jumlah (rows sheet_A))) = [] \<and>
   vendor_rows (Some ''Nonexistent'')
     (only_approved (columns sheet_A) (dropna_jumlah_po_code (rows sheet_A))) = [] \<and>
   count_transactions [sheet_A] (Some ''Nonexistent'') =
     Inl (ValueError (tidak_ada_transaksi ''Nonexistent'')) \<and>
   count_unique_po_by_range [sheet_A] (Some ''Nonexistent'') = Inr (0, [0, 0, 0, 0, 0, 0, 0]) \<and>
   get_po_breakdown [sheet_A] (Some ''Nonexistent'') = (\<lambda>res. res = Inr [])"
proof -
  have h: "vendor_given (Some ''Nonexistent'')" "Text total_column \<in> set (columns sheet_A)"
    "Text vendor_column \<in> set (columns sheet_A)" "Text po_code_column \<in> set (columns sheet_A)"
    "vendor_rows (Some ''Nonexistent'')
       (only_approved (columns sheet_A) (dropna_jumlah (rows sheet_A))) = []"
    "vendor_rows (Some ''Nonexistent'')
       (only_approved (columns sheet_A) (dropna_jumlah_po_code (rows sheet_A))) = []"
    by code_simp+
  show ?thesis
    using h vendor_without_rows [OF h(1) h(2) h(3), of "[]"] by simp
qed

section \<open>Missing columns\<close>

lemma column_not_found_text:
  "text_labels cols = Some names \<Longrightarrow>
     column_not_found c cols = ValueError (kolom_tidak_ditemukan_tersedia c names)"
  by (simp add: column_not_found_def)

text \<open>A header cell that is a number: the message cannot be built, and the error is
  TypeError whichever column is missing.\<close>

lemma column_not_found_numeric_header:
  "count_transactions [sheet_numeric_header] None = Inl TypeError"
  by code_simp

text \<open>
  C6, as stated: every missing-column failure names the column and lists the available
  ones, the PO counter's included. On a sheet that has only \<^verbatim>\<open>vendor_name\<close>, the PO
  counter's message is \<^verbatim>\<open>Kolom 'jumlah' tidak ditemukan.\<close> and nothing more.
\<close>

theorem missing_column_counterexample:
  "Text total_column \<notin> set (columns sheet_vendor_only) \<and>
   text_labels (columns sheet_vendor_only) = Some [''vendor_name''] \<and>
   count_unique_po_by_range [sheet_vendor_only] None =
     Inl (ValueError (''Kolom '' @ [CHR 0x27] @ ''jumlah'' @ [CHR 0x27] @ '' tidak ditemukan.'')) \<and>
   count_unique_po_by_range [sheet_vendor_only] None \<noteq>
     Inl (ValueError (kolom_tidak_ditemukan_tersedia total_column [''vendor_name'']))"
  by code_simp

text \<open>
  C6, amended. On a sheet whose column labels are all text: without \<^verbatim>\<open>jumlah\<close>, or with
  it and without \<^verbatim>\<open>vendor_name\<close>, \<^verbatim>\<open>count_transactions\<close> fails with a ValueError that
  names the missing column and lists the labels of the sheet. On every sheet: without
  \<^verbatim>\<open>jumlah\<close>, or with it and without \<^verbatim>\<open>po_code\<close>, \<^verbatim>\<open>count_unique_po_by_range\<close> and
  \<^verbatim>\<open>get_po_breakdown\<close> fail with a ValueError that names the missing column only.
\<close>

theorem missing_column_errors:
  "(Text total_column \<notin> set (columns df) \<and> text_labels (columns df) = Some names \<longrightarrow>
      count_transactions (df # sheets) vendor =
        Inl (ValueError (kolom_tidak_ditemukan_tersedia total_column names))) \<and>
   (Text total_column \<in> set (columns df) \<and> Text vendor_column \<notin> set (columns df) \<and>
    text_labels (columns df) = Some names \<longrightarrow>
      count_transactions (df # sheets) vendor =
        Inl (ValueError (kolom_tidak_ditemukan_tersedia vendor_column names))) \<and>
   (Text total_column \<notin> set (columns df) \<longrightarrow>
      count_unique_po_by_range (df # sheets) vendor =
        Inl (ValueError (kolom_tidak_ditemukan total_column)) \<and>
      get_po_breakdown (df # sheets) vendor =
        (\<lambda>res. res = Inl (ValueError (kolom_tidak_ditemukan total_column)))) \<and>
   (Text total_column \<in> set (columns df) \<and> Text po_code_column \<notin> set (columns df) \<longrightarrow>
      count_unique_po_by_range (df # sheets) vendor =
        Inl (ValueError (kolom_tidak_ditemukan po_code_column)) \<and>
      get_po_breakdown (df # sheets) vendor =
        (\<lambda>res. res = Inl (ValueError (kolom_tidak_ditemukan po_code_column))))"
  by (simp add: count_transactions_def po_rows_def count_unique_po_by_range_def
      po_summary_def get_po_breakdown_error column_not_found_text)

theorem missing_column_errors_witness:
  "Text total_column \<notin> set (columns sheet_vendor_only) \<and>
   text_labels (columns sheet_vendor_only) = Some [''vendor_name''] \<and>
   count_transactions [sheet_vendor_only] None =
     Inl (ValueError (kolom_tidak_ditemukan_tersedia ''jumlah'' [''vendor_name''])) \<and>
   count_unique_po_by_range [sheet_vendor_only] None =
     Inl (ValueError (kolom_tidak_ditemukan ''jumlah'')) \<and>
   get_po_breakdown [sheet_vendor_only] None =
     (\<lambda>res. res = Inl (ValueError (kolom_tidak_ditemukan ''jumlah''))) \<and>
   Text total_column \<in> set (columns sheet_jumlah_only) \<and>
   Text vendor_column \<notin> set (columns sheet_jumlah_only) \<and>
   text_labels (columns sheet_jumlah_only) = Some [''jumlah''] \<and>
   count_transactions [sheet_jumlah_only] None =
     Inl (ValueError (kolom_tidak_ditemukan_tersedia ''vendor_name'' [''jumlah''])) \<and>
   Text total_column \<in> set (columns sheet_no_po_code) \<and>
   Text po_code_column \<notin> set (columns sheet_no_po_code) \<and>
   count_unique_po_by_range [sheet_no_po_code] None =
     Inl (ValueError (kolom_tidak_ditemukan ''po_code'')) \<and>
   get_po_breakdown [sheet_no_po_code] None =
     (\<lambda>res. res = Inl (ValueError (kolom_tidak_ditemukan ''po_code'')))"
proof -
  have h: "Text total_column \<notin> set (columns sheet_vendor_only)"
    "text_labels (columns sheet_vendor_only) = Some [''vendor_name'']"
    "Text total_column \<in> set (columns sheet_jumlah_only)"
    "Text vendor_column \<notin> set (columns sheet_jumlah_only)"
    "text_labels (columns sheet_jumlah_only) = Some [''jumlah'']"
    "Text total_column \<in> set (columns sheet_no_po_code)"
    "Text po_code_column \<notin> set (columns sheet_no_po_code)"
    by code_simp+
  show ?thesis
    using h missing_column_errors [of sheet_vendor_only "[''vendor_name'']" "[]" None]
      missing_column_errors [of sheet_jumlah_only "[''jumlah'']" "[]" None]
      missing_column_errors [of sheet_no_po_code _ "[]" None]
    by (simp add: total_column_def vendor_column_def po_code_column_def)
qed

section \<open>The order of the breakdown\<close>

text \<open>Numeric PO codes are grouped in numeric order, before any text code.\<close>

lemma groupby_po_code_numeric_keys:
  "map fst (groupby_po_code
     [\<lparr>vendor_name = Some ''X'', jumlah = Some 1, po_status_approval = None,
       po_code = Some (Text ''10'')\<rparr>,
      \<lparr>vendor_name = Some ''X'', jumlah = Some 1, po_status_approval = None,
       po_code = Some (Number 10)\<rparr>,
      \<lparr>vendor_name = Some ''X'', jumlah = Some 1, po_status_approval = None,
       po_code = Some (Number 9)\<rparr>]) =
   [Number 9, Number 10, Text ''10'']"
  by code_simp






section \<open>The vendor filter and the total\<close>

text \<open>
  C9. Whenever \<^verbatim>\<open>count_transactions\<close> succeeds with a vendor filter, it succeeds without
  one on the same workbook, and the total of the filtered call is at most the total of the
  unfiltered one.
\<close>

theorem vendor_filter_monotone:
  assumes "count_transactions file vendor = Inr (n, a, cs)"
  shows "\<exists>n0 a0 cs0. count_transactions file None = Inr (n0, a0, cs0) \<and> n \<le> n0"
proof (cases "file")
  case Nil
  with assms show ?thesis by (simp add: count_transactions_def)
next
  case (Cons df sheets)
  with assms have cols:
    "Text total_column \<in> set (columns df)" "Text vendor_column \<in> set (columns df)"
    by (auto simp: count_transactions_def split: if_splits)
  let ?rs = "only_approved (columns df) (dropna_jumlah (rows df))"
  have none: "count_transactions file None = Inr (transaction_counts ?rs)"
    using cols by (simp add: Cons count_transactions_def vendor_given_def)
  have "n = length ?rs \<or> n = length (vendor_rows vendor ?rs)"
    using assms cols
    by (auto simp: Cons count_transactions_def transaction_counts_def Let_def split: if_splits)
  then have "n \<le> length ?rs"
    by (auto simp: vendor_rows_def)
  with none show ?thesis by (simp add: transaction_counts_def)
qed

theorem vendor_filter_monotone_witness:
  "count_transactions [sheet_vendors] (Some ''X'') = Inr (2, 250000, [1, 1, 0, 0, 0, 0, 0]) \<and>
   count_transactions [sheet_vendors] None = Inr (3, 850000, [1, 1, 1, 0, 0, 0, 0]) \<and>
   (\<exists>n0 a0 cs0. count_transactions [sheet_vendors] None = Inr (n0, a0, cs0) \<and> (2::nat) \<le> n0)"
proof -
  have h: "count_transactions [sheet_vendors] (Some ''X'') = Inr (2, 250000, [1, 1, 0, 0, 0, 0, 0])"
    by code_simp
  have h0: "count_transactions [sheet_vendors] None = Inr (3, 850000, [1, 1, 1, 0, 0, 0, 0])"
    by code_simp
  show ?thesis using h h0 vendor_filter_monotone [OF h] by blast
qed

section \<open>The raw rows are not checked\<close>

text \<open>
  C10. \<^verbatim>\<open>get_transaction_dataframe\<close> validates no column and does not look for an empty
  result. On a sheet without \<^verbatim>\<open>jumlah\<close> it fails with KeyError where
  \<^verbatim>\<open>count_transactions\<close> fails with the error of its own check (\<open>column_not_found\<close>: its
  ValueError, or TypeError when a label is not text); on a sheet without
  \<^verbatim>\<open>vendor_name\<close> and with no vendor given it returns the filtered rows where
  \<^verbatim>\<open>count_transactions\<close> fails likewise; and when the vendor filter leaves no row it
  returns the sheet with no rows where \<^verbatim>\<open>count_transactions\<close> fails with the ValueError
  that names the vendor.
\<close>

theorem transaction_dataframe_unchecked:
  "(Text total_column \<notin> set (columns df) \<longrightarrow>
      get_transaction_dataframe (df # sheets) vendor = Inl (KeyError total_column) \<and>
      count_transactions (df # sheets) vendor =
        Inl (case text_labels (columns df) of
               None \<Rightarrow> TypeError
             | Some names \<Rightarrow> ValueError (kolom_tidak_ditemukan_tersedia total_column names))) \<and>
   (Text total_column \<in> set (columns df) \<and> Text vendor_column \<notin> set (columns df) \<and>
    \<not> vendor_given vendor \<longrightarrow>
      get_transaction_dataframe (df # sheets) vendor =
        Inr (df\<lparr>rows := only_approved (columns df) (dropna_jumlah (rows df))\<rparr>) \<and>
      count_transactions (df # sheets) vendor =
        Inl (case text_labels (columns df) of
               None \<Rightarrow> TypeError
             | Some names \<Rightarrow> ValueError (kolom_tidak_ditemukan_tersedia vendor_column names))) \<and>
   (Text total_column \<in> set (columns df) \<and> Text vendor_column \<in> set (columns df) \<and>
    vendor_given vendor \<and>
    vendor_rows vendor (only_approved (columns df) (dropna_jumlah (rows df))) = [] \<longrightarrow>
      get_transaction_dataframe (df # sheets) vendor = Inr (df\<lparr>rows := []\<rparr>) \<and>
      count_transactions (df # sheets) vendor =
        Inl (ValueError (tidak_ada_transaksi (the vendor))))"
  by (simp add: get_transaction_dataframe_def count_transactions_def column_not_found_def)

theorem transaction_dataframe_unchecked_witness:
  "Text total_column \<notin> set (columns sheet_vendor_only) \<and>
   get_transaction_dataframe [sheet_vendor_only] None = Inl (KeyError ''jumlah'') \<and>
   count_transactions [sheet_vendor_only] None =
     Inl (ValueError (kolom_tidak_ditemukan_tersedia ''jumlah'' [''vendor_name''])) \<and>
   Text total_column \<in> set (columns sheet_jumlah_only) \<and>
   Text vendor_column \<notin> set (columns sheet_jumlah_only) \<and> \<not> vendor_given None \<and>
   get_transaction_dataframe [sheet_jumlah_only] None = Inr sheet_jumlah_only \<and>
   count_transactions [sheet_jumlah_only] None =
     Inl (ValueError (kolom_tidak_ditemukan_tersedia ''vendor_name'' [''jumlah''])) \<and>
   Text total_column \<in> set (columns sheet_A) \<and> Text vendor_column \<in> set (columns sheet_A) \<and>
   vendor_given (Some ''Nonexistent'') \<and>
   vendor_rows (Some ''Nonexistent'')
     (only_approved (columns sheet_A) (dropna_jumlah (rows sheet_A))) = [] \<and>
   get_transaction_dataframe [sheet_A] (Some ''Nonexistent'') = Inr (sheet_A\<lparr>rows := []\<rparr>) \<and>
   count_transactions [sheet_A] (Some ''Nonexistent'') =
     Inl (ValueError (tidak_ada_transaksi ''Nonexistent''))"
proof -
  have h: "Text total_column \<notin> set (columns sheet_vendor_only)"
    "Text total_column \<in> set (columns sheet_jumlah_only)"
    "Text vendor_column \<notin> set (columns sheet_jumlah_only)" "\<not> vendor_given None"
    "Text total_column \<in> set (columns sheet_A)" "Text vendor_column \<in> set (columns sheet_A)"
    "vendor_given (Some ''Nonexistent'')"
    "vendor_rows (Some ''Nonexistent'')
       (only_approved (columns sheet_A) (dropna_jumlah (rows sheet_A))) = []"
    by code_simp+
  have c: "columns sheet_vendor_only = [Text ''vendor_name'']"
    "columns sheet_jumlah_only = [Text ''jumlah'']"
    "only_approved [Text ''jumlah''] (dropna_jumlah (rows sheet_jumlah_only)) = []"
    "sheet_jumlah_only\<lparr>rows := []\<rparr> = sheet_jumlah_only"
    by (simp_all add: sheet_vendor_only_def sheet_jumlah_only_def only_approved_def
        dropna_jumlah_def)
  show ?thesis
    using h transaction_dataframe_unchecked [of sheet_vendor_only "[]" None]
      transaction_dataframe_unchecked [of sheet_jumlah_only "[]" None]
      transaction_dataframe_unchecked [of sheet_A "[]" "Some ''Nonexistent''"]
    by (simp add: c total_column_def vendor_column_def)
qed

end
